theory Spec2Isabelle
  imports Complex_Main
begin

section \<open>Strings as the handler uses them\<close>

text \<open>
  Python strings are modelled as HOL strings, a character standing for the code point of
  the same number: the model covers text of code points below 256. The character functions
  below follow Python on that range.
\<close>

definition code :: "char \<Rightarrow> nat" where
  "code c = of_char c"

text \<open>\<open>str.isspace\<close>: tab, line feed, vertical tab, form feed, carriage return, the
  four separators 28 to 31, the blank, the next-line control 133 and the no-break space
  160.\<close>

definition py_isspace :: "char \<Rightarrow> bool" where
  "py_isspace c =
     ((9 \<le> code c \<and> code c \<le> 13) \<or> (28 \<le> code c \<and> code c \<le> 32)
      \<or> code c = 133 \<or> code c = 160)"

definition py_strip :: "string \<Rightarrow> string" where
  "py_strip s = rev (dropWhile py_isspace (rev (dropWhile py_isspace s)))"

text \<open>\<open>str.lower\<close>, by table: the letters A to Z, and the capital letters 192 to 222 of
  the upper half (all but the multiplication sign 215), each 32 below its small letter.\<close>

definition upper_letters :: string where
  "upper_letters = ''ABCDEFGHIJKLMNOPQRSTUVWXYZ'' @
     [CHR 0xC0, CHR 0xC1, CHR 0xC2, CHR 0xC3, CHR 0xC4, CHR 0xC5, CHR 0xC6, CHR 0xC7,
      CHR 0xC8, CHR 0xC9, CHR 0xCA, CHR 0xCB, CHR 0xCC, CHR 0xCD, CHR 0xCE, CHR 0xCF,
      CHR 0xD0, CHR 0xD1, CHR 0xD2, CHR 0xD3, CHR 0xD4, CHR 0xD5, CHR 0xD6,
      CHR 0xD8, CHR 0xD9, CHR 0xDA, CHR 0xDB, CHR 0xDC, CHR 0xDD, CHR 0xDE]"

definition lower_letters :: string where
  "lower_letters = ''abcdefghijklmnopqrstuvwxyz'' @
     [CHR 0xE0, CHR 0xE1, CHR 0xE2, CHR 0xE3, CHR 0xE4, CHR 0xE5, CHR 0xE6, CHR 0xE7,
      CHR 0xE8, CHR 0xE9, CHR 0xEA, CHR 0xEB, CHR 0xEC, CHR 0xED, CHR 0xEE, CHR 0xEF,
      CHR 0xF0, CHR 0xF1, CHR 0xF2, CHR 0xF3, CHR 0xF4, CHR 0xF5, CHR 0xF6,
      CHR 0xF8, CHR 0xF9, CHR 0xFA, CHR 0xFB, CHR 0xFC, CHR 0xFD, CHR 0xFE]"

definition lower_char :: "char \<Rightarrow> char" where
  "lower_char c =
     (case map_of (zip upper_letters lower_letters) c of
        None \<Rightarrow> c
      | Some l \<Rightarrow> l)"

definition py_lower :: "string \<Rightarrow> string" where
  "py_lower s = map lower_char s"

text \<open>The character classes of the two regular expressions of the column sanitiser.\<close>

definition is_lower_alnum :: "char \<Rightarrow> bool" where
  "is_lower_alnum c = ((97 \<le> code c \<and> code c \<le> 122) \<or> (48 \<le> code c \<and> code c \<le> 57))"

definition is_word_char :: "char \<Rightarrow> bool" where
  "is_word_char c = (is_lower_alnum c \<or> c = CHR ''_'')"

text \<open>\<open>str.replace(r'[^a-z0-9_]', '_', regex=True)\<close>: every character outside the
  class becomes an underscore, one for one.\<close>

definition replace_non_word :: "string \<Rightarrow> string" where
  "replace_non_word s = map (\<lambda>c. if is_word_char c then c else CHR ''_'') s"

text \<open>\<open>str.replace(r'_+', '_', regex=True)\<close>: every maximal run of underscores becomes
  one underscore.\<close>

fun collapse_underscores :: "string \<Rightarrow> string" where
  "collapse_underscores (a # b # cs) =
     (if a = CHR ''_'' \<and> b = CHR ''_'' then collapse_underscores (b # cs)
      else a # collapse_underscores (b # cs))"
| "collapse_underscores cs = cs"

text \<open>The chain applied to each column name at lines 205 and 206 of the handler:
  strip, lower, replace, replace.\<close>

definition sanitize_column :: "string \<Rightarrow> string" where
  "sanitize_column s = collapse_underscores (replace_non_word (py_lower (py_strip s)))"




section \<open>Frames\<close>

text \<open>
  A pandas DataFrame with a default integer index: the ordered column labels with the kind
  of each column, and the rows as lists of cells. Only the distinction the summary makes is
  kept of the column types: a column is numeric (an integer or float dtype) or it is not
  (object and bool columns). A missing value is \<open>NaN\<close>. Numeric values are rationals:
  every finite float is one. A column label is a value like any cell: the CSV parser
  yields strings, the spreadsheet parser yields a number for a numeric header cell, and
  the column index of a frame without columns holds no label at all. Dates and truth
  values, as labels or as cells, are not modelled.
\<close>

datatype cell = Num rat | Str string | NaN

datatype dtype = Numeric | Object

record frame =
  cols :: "(cell \<times> dtype) list"
  rows :: "cell list list"

definition columns :: "frame \<Rightarrow> cell list" where
  "columns df = map fst (cols df)"

fun is_str :: "cell \<Rightarrow> bool" where
  "is_str (Str s) = True"
| "is_str c = False"

text \<open>\<open>len(df)\<close>, \<open>df.values.tolist()\<close>, \<open>df.iloc[i:j]\<close> and \<open>df.empty\<close>
  (true when either axis has length zero).\<close>

definition len_df :: "frame \<Rightarrow> nat" where
  "len_df df = length (rows df)"

definition values_tolist :: "frame \<Rightarrow> cell list list" where
  "values_tolist df = rows df"

definition iloc :: "frame \<Rightarrow> nat \<Rightarrow> nat \<Rightarrow> frame" where
  "iloc df i j = df\<lparr>rows := take (j - i) (drop i (rows df))\<rparr>"

definition empty_df :: "frame \<Rightarrow> bool" where
  "empty_df df = (cols df = [] \<or> rows df = [])"

text \<open>
  The string methods of line 205 on one label: a string goes through the chain, any other
  label comes out missing.
\<close>

fun sanitize_label :: "cell \<Rightarrow> cell" where
  "sanitize_label (Str s) = Str (sanitize_column s)"
| "sanitize_label c = NaN"

definition normalize_labels :: "frame \<Rightarrow> frame" where
  "normalize_labels df = df\<lparr>cols := map (\<lambda>(n, t). (sanitize_label n, t)) (cols df)\<rparr>"

text \<open>The value of column \<open>j\<close> in each row; parsed frames are rectangular, a short row
  reads as missing.\<close>

definition column_values :: "frame \<Rightarrow> nat \<Rightarrow> cell list" where
  "column_values df j = map (\<lambda>r. if j < length r then r ! j else NaN) (rows df)"

section \<open>Exceptions and the library\<close>

datatype exn =
    EmptyDataError string
  | ParserError string
  | IndexError string
  | AttributeError string
  | ValueError string
  | OtherError string

fun str_exn :: "exn \<Rightarrow> string" where
  "str_exn (EmptyDataError m) = m"
| "str_exn (ParserError m) = m"
| "str_exn (IndexError m) = m"
| "str_exn (AttributeError m) = m"
| "str_exn (ValueError m) = m"
| "str_exn (OtherError m) = m"

text \<open>
  The assignment to \<open>df.columns\<close> at line 205. The \<open>.str\<close> accessor of a column index is
  there only when the index holds a string: an index of numbers only, and the empty index
  of a frame without columns, raise the AttributeError before any label is changed. The
  data stay.
\<close>

definition sanitize_columns :: "frame \<Rightarrow> exn + frame" where
  "sanitize_columns df =
     (if list_ex is_str (columns df) then Inr (normalize_labels df)
      else Inl (AttributeError ''Can only use .str accessor with string values!''))"

text \<open>
  What the handler obtains from outside the repository and from the clock is a
  parameter: werkzeug's \<open>secure_filename\<close>, the two pandas parsers (any exception they
  raise is a value), the statistic pandas computes for a label over the values of one
  column, the float that \<open>round(2)\<close> makes of a numeric value, and the formatted time of
  the request.
\<close>

record env =
  secure_filename :: "string \<Rightarrow> string"
  read_csv :: "string \<Rightarrow> exn + frame"
  read_excel :: "string \<Rightarrow> exn + frame"
  agg :: "string \<Rightarrow> cell list \<Rightarrow> cell"
  round_float :: "rat \<Rightarrow> cell"
  now :: string

section \<open>The summary frame\<close>

definition numeric_labels :: "string list" where
  "numeric_labels = [''count'', ''mean'', ''std'', ''min'', ''25%'', ''50%'', ''75%'', ''max'']"

definition object_labels :: "string list" where
  "object_labels = [''count'', ''unique'', ''top'', ''freq'']"

text \<open>The positions of the numeric columns, in column order.\<close>

definition numeric_positions :: "frame \<Rightarrow> nat list" where
  "numeric_positions df = filter (\<lambda>j. snd (cols df ! j) = Numeric) [0..<length (cols df)]"

text \<open>
  \<open>DataFrame.describe()\<close> with no argument, as pandas documents it: a frame without
  columns is refused with a ValueError; the numeric columns are described by the eight
  numeric statistics; a frame that has columns but no numeric one is described over all
  its columns by count, unique, top and freq. The result is indexed by the statistic
  labels, returned here beside the frame.
\<close>

definition describe :: "env \<Rightarrow> frame \<Rightarrow> exn + (string list \<times> frame)" where
  "describe e df =
     (if cols df = [] then Inl (ValueError ''Cannot describe a DataFrame without columns'')
      else if numeric_positions df \<noteq> [] then
        Inr (numeric_labels,
             \<lparr>cols = map (\<lambda>j. cols df ! j) (numeric_positions df),
              rows = map (\<lambda>l. map (\<lambda>j. agg e l (column_values df j)) (numeric_positions df))
                       numeric_labels\<rparr>)
      else
        Inr (object_labels,
             \<lparr>cols = map (\<lambda>(n, t). (n, Object)) (cols df),
              rows = map (\<lambda>l. map (\<lambda>j. agg e l (column_values df j)) [0..<length (cols df)])
                       object_labels\<rparr>))"

text \<open>
  \<open>reset_index()\<close>: the index becomes the first column. pandas names it \<open>index\<close>, or
  \<open>level_0\<close> when a column \<open>index\<close> is there already, and refuses to insert a name that
  exists.
\<close>

definition reset_index :: "string list \<times> frame \<Rightarrow> exn + frame" where
  "reset_index p =
     (case p of (labels, df) \<Rightarrow>
       (let nm = (if Str ''index'' \<in> set (columns df) then ''level_0'' else ''index'') in
        if Str nm \<in> set (columns df)
        then Inl (ValueError (''cannot insert '' @ nm @ '', already exists''))
        else Inr \<lparr>cols = (Str nm, Object) # cols df,
                  rows = map (\<lambda>(l, r). Str l # r) (zip labels (rows df))\<rparr>))"

text \<open>\<open>rename(columns={'index': 'Statistic'})\<close>.\<close>

definition rename_index :: "frame \<Rightarrow> frame" where
  "rename_index df =
     df\<lparr>cols := map (\<lambda>(n, t). (if n = Str ''index'' then Str ''Statistic'' else n, t))
                   (cols df)\<rparr>"

text \<open>
  \<open>round(2)\<close> rounds the numeric values of the numeric columns and leaves every other
  cell alone. The rounding is float arithmetic of the library, taken from the
  environment.
\<close>

fun round_cell :: "env \<Rightarrow> (cell \<times> dtype) \<times> cell \<Rightarrow> cell" where
  "round_cell e ((n, Numeric), Num x) = round_float e x"
| "round_cell e (ct, c) = c"

definition round_frame :: "env \<Rightarrow> frame \<Rightarrow> frame" where
  "round_frame e df = df\<lparr>rows := map (\<lambda>r. map (round_cell e) (zip (cols df) r)) (rows df)\<rparr>"

text \<open>\<open>generate_summary_df\<close>, lines 41 to 45.\<close>

definition generate_summary_df :: "env \<Rightarrow> frame \<Rightarrow> exn + frame" where
  "generate_summary_df e df =
     (case describe e df of
        Inl x \<Rightarrow> Inl x
      | Inr d \<Rightarrow>
          (case reset_index d of
             Inl x \<Rightarrow> Inl x
           | Inr s \<Rightarrow> Inr (round_frame e (rename_index s))))"


section \<open>Reports\<close>

text \<open>
  A ReportLab story is the list of flowables handed to \<open>doc.build\<close>: a paragraph with
  its style, a spacer, or a table with its data and the names of its style commands.
  A page size is width and height in millimetres; \<open>landscape\<close> puts the longer side
  first.
\<close>

datatype flowable =
    Paragraph string string
  | Spacer nat nat
  | Table "cell list list" "string list"

type_synonym pagesize = "nat \<times> nat"

definition A4 :: pagesize where "A4 = (210, 297)"
definition A3 :: pagesize where "A3 = (297, 420)"
definition A2 :: pagesize where "A2 = (420, 594)"
definition A1 :: pagesize where "A1 = (594, 841)"

definition landscape :: "pagesize \<Rightarrow> pagesize" where
  "landscape p = (case p of (a, b) \<Rightarrow> if a < b then (b, a) else (a, b))"

text \<open>What a generator returns in its buffer: the document that was built.\<close>

datatype report =
    PdfDoc pagesize "flowable list"
  | CsvDoc frame
  | XlsxDoc string frame

definition digit_char :: "nat \<Rightarrow> char" where
  "digit_char n = ''0123456789'' ! n"

text \<open>The decimal numeral an f-string prints for a natural number.\<close>

function show_nat :: "nat \<Rightarrow> string" where
  "show_nat n = (if n < 10 then [digit_char n] else show_nat (n div 10) @ [digit_char (n mod 10)])"
  by pat_completeness auto
termination
  by (relation "measure id") auto

declare show_nat.simps [simp del]

text \<open>\<open>generate_reportlab_pdf\<close>, lines 48 to 75. The page size is always A4.\<close>

definition generate_reportlab_pdf :: "env \<Rightarrow> frame \<Rightarrow> string \<Rightarrow> exn + report" where
  "generate_reportlab_pdf e df filename =
     (let story =
        [Paragraph (''<b>Data Analysis Report: '' @ filename @ ''</b>'') ''Title'',
         Paragraph (''<i>Generated on: '' @ now e @ ''</i>'') ''Normal'',
         Spacer 1 12,
         Paragraph (''<b>Total Records:</b> '' @ show_nat (len_df df)) ''Normal'',
         Spacer 1 24]
      in
      case generate_summary_df e df of
        Inl x \<Rightarrow> Inl x
      | Inr numeric_summary \<Rightarrow>
          (let numeric_data = columns numeric_summary # values_tolist numeric_summary in
           if \<not> empty_df numeric_summary then
             Inr (PdfDoc A4 (story @
               [Paragraph ''<b>Numeric Column Statistics:</b>'' ''h2'',
                Table numeric_data [''BACKGROUND'', ''GRID'']]))
           else
             Inr (PdfDoc A4 (story @
               [Paragraph ''<i>No numeric columns found.</i>'' ''Italic'']))))"

text \<open>\<open>range(start, stop, step)\<close> for the positive step the loop uses.\<close>

function py_range :: "nat \<Rightarrow> nat \<Rightarrow> nat \<Rightarrow> nat list" where
  "py_range i stop step =
     (if step = 0 \<or> stop \<le> i then [] else i # py_range (i + step) stop step)"
  by pat_completeness auto
termination
  by (relation "measure (\<lambda>(i, stop, step). stop - i)") auto

declare py_range.simps [simp del]

definition chunk_size :: nat where
  "chunk_size = 5000"

definition header_style :: "string list" where
  "header_style = [''BACKGROUND'', ''GRID'', ''BOX'', ''FONTSIZE'', ''ALIGN'', ''VALIGN'',
     ''LEFTPADDING'', ''RIGHTPADDING'', ''TOPPADDING'', ''BOTTOMPADDING'', ''FONTNAME'']"

definition chunk_style :: "string list" where
  "chunk_style = [''GRID'', ''BOX'', ''FONTSIZE'', ''ALIGN'', ''VALIGN'',
     ''LEFTPADDING'', ''RIGHTPADDING'', ''TOPPADDING'', ''BOTTOMPADDING'']"

text \<open>The tables the loop of lines 120 to 138 appends, one for each start index.\<close>

definition chunk_tables :: "frame \<Rightarrow> flowable list" where
  "chunk_tables df =
     map (\<lambda>i. Table (values_tolist (iloc df i (i + chunk_size))) chunk_style)
       (py_range 0 (len_df df) chunk_size)"

text \<open>The story of \<open>generate_full_data_pdf\<close>, lines 83 to 138, and the function.\<close>

definition full_data_story :: "env \<Rightarrow> frame \<Rightarrow> string \<Rightarrow> flowable list" where
  "full_data_story e df filename =
     [Paragraph (''<b>Full Data Report: '' @ filename @ ''</b>'') ''Title'',
      Paragraph (''<i>Generated on: '' @ now e @ ''</i>'') ''Normal'',
      Spacer 1 12,
      Table [columns df] header_style]
     @ chunk_tables df"

definition generate_full_data_pdf :: "env \<Rightarrow> frame \<Rightarrow> string \<Rightarrow> pagesize \<Rightarrow> report" where
  "generate_full_data_pdf e df filename page_size = PdfDoc page_size (full_data_story e df filename)"

text \<open>\<open>generate_csv_report\<close> and \<open>generate_excel_report\<close>, lines 145 to 167: the summary
  frame for the report type \<open>summary\<close>, the frame itself for any other, written without
  the index.\<close>

definition generate_csv_report :: "env \<Rightarrow> frame \<Rightarrow> string \<Rightarrow> exn + report" where
  "generate_csv_report e df report_type =
     (if report_type = ''summary'' then
        (case generate_summary_df e df of Inl x \<Rightarrow> Inl x | Inr summary_df \<Rightarrow> Inr (CsvDoc summary_df))
      else Inr (CsvDoc df))"

definition generate_excel_report :: "env \<Rightarrow> frame \<Rightarrow> string \<Rightarrow> exn + report" where
  "generate_excel_report e df report_type =
     (if report_type = ''summary'' then
        (case generate_summary_df e df of
           Inl x \<Rightarrow> Inl x
         | Inr summary_df \<Rightarrow> Inr (XlsxDoc ''Summary'' summary_df))
      else Inr (XlsxDoc ''Full Data'' df))"


section \<open>The request handler\<close>

record config =
  MAX_FILE_SIZE :: nat
  ALLOWED_EXTENSIONS :: "string set"

text \<open>The configuration of lines 28 to 31.\<close>

definition default_config :: config where
  "default_config = \<lparr>MAX_FILE_SIZE = 150 * 1024 * 1024, ALLOWED_EXTENSIONS = {''csv'', ''xlsx''}\<rparr>"

text \<open>\<open>s.rsplit('.', 1)\<close>: the text before the last dot and the text after it, or the
  string alone when it has no dot.\<close>

definition rsplit_dot :: "string \<Rightarrow> string list" where
  "rsplit_dot s =
     (let r = rev s; rest = dropWhile (\<lambda>c. c \<noteq> CHR ''.'') r in
      if rest = [] then [s]
      else [rev (tl rest), rev (takeWhile (\<lambda>c. c \<noteq> CHR ''.'') r)])"

text \<open>\<open>allowed_file\<close>, lines 36 to 38.\<close>

definition allowed_file :: "config \<Rightarrow> string \<Rightarrow> bool" where
  "allowed_file cfg filename =
     (CHR ''.'' \<in> set filename \<and> py_lower (rsplit_dot filename ! 1) \<in> ALLOWED_EXTENSIONS cfg)"

text \<open>
  A request: whether its method is POST, the uploaded file under the key \<open>file\<close> (its
  name and its content) when there is one, and the form fields.
\<close>

record request =
  is_post :: bool
  upload :: "(string \<times> string) option"
  form :: "string \<rightharpoonup> string"

definition form_get :: "request \<Rightarrow> string \<Rightarrow> string \<Rightarrow> string" where
  "form_get rq k d = (case form rq k of None \<Rightarrow> d | Some v \<Rightarrow> v)"

text \<open>
  A response: a JSON error with its status, the file sent with its download name and
  MIME type, or the upload page. What the handler did with the upload on the way is
  logged as events: reading its bytes, and handing them to a parser.
\<close>

datatype response =
    Json string nat
  | SendFile report string string
  | Page

datatype event = ReadFile | ParseCsv | ParseExcel

text \<open>Lines 252 to 261: no report is a server error, a report is sent.\<close>

definition finish :: "report option \<Rightarrow> string \<Rightarrow> string \<Rightarrow> response" where
  "finish report_file download_name mimetype =
     (case report_file of
        None \<Rightarrow> Json ''Failed to generate report'' 500
      | Some r \<Rightarrow> SendFile r download_name mimetype)"

text \<open>Lines 216 to 223: the page size of a PDF request.\<close>

definition select_page_size :: "string \<Rightarrow> pagesize" where
  "select_page_size page_size_str =
     (if page_size_str = ''A3'' then landscape A3
      else if page_size_str = ''A2'' then landscape A2
      else if page_size_str = ''A1'' then landscape A1
      else A4)"

text \<open>Lines 208 to 261, for the frame with its sanitised labels and the secured file
  name. An exception of a generator leaves through \<open>Inl\<close>.\<close>

definition select_report :: "env \<Rightarrow> request \<Rightarrow> string \<Rightarrow> frame \<Rightarrow> exn + response" where
  "select_report e rq filename df =
     (let report_type = py_lower (form_get rq ''report_type'' ''summary'');
          output_format = py_lower (form_get rq ''output_format'' ''pdf'');
          page_size_str = form_get rq ''page_size'' ''A4'';
          download_name = rsplit_dot filename ! 0
      in
      if output_format = ''pdf'' then
        (let page_size = select_page_size page_size_str in
         if report_type = ''summary'' then
           (case generate_reportlab_pdf e df filename of
              Inl x \<Rightarrow> Inl x
            | Inr r \<Rightarrow>
                Inr (finish (Some r) (download_name @ ''_summary_report.pdf'') ''application/pdf''))
         else if report_type = ''full_data'' then
           Inr (finish (Some (generate_full_data_pdf e df filename page_size))
                  (download_name @ ''_full_data.pdf'') ''application/pdf'')
         else Inr (finish None download_name ''application/pdf''))
      else if output_format = ''csv'' then
        (case generate_csv_report e df report_type of
           Inl x \<Rightarrow> Inl x
         | Inr r \<Rightarrow>
             Inr (finish (Some r)
                    (if report_type = ''summary'' then download_name @ ''_summary_report.csv''
                     else download_name @ ''_full_data.csv'')
                    ''text/csv''))
      else if output_format = ''excel'' then
        (case generate_excel_report e df report_type of
           Inl x \<Rightarrow> Inl x
         | Inr r \<Rightarrow>
             Inr (finish (Some r)
                    (if report_type = ''summary'' then download_name @ ''_summary_report.xlsx''
                     else download_name @ ''_full_data.xlsx'')
                    ''application/vnd.openxmlformats-officedocument.spreadsheetml.sheet''))
      else Inr (Json ''Invalid output format selected'' 400))"

text \<open>Lines 204 to 261, for the frame a parser returned: the exception of line 205
  leaves before a selector is read.\<close>

definition build_response :: "env \<Rightarrow> request \<Rightarrow> string \<Rightarrow> frame \<Rightarrow> exn + response" where
  "build_response e rq filename df0 =
     (case sanitize_columns df0 of
        Inl x \<Rightarrow> Inl x
      | Inr df \<Rightarrow> select_report e rq filename df)"

text \<open>
  The body of the \<open>try\<close>, lines 182 to 261, for an upload that passed the checks before
  it: the events, and the response or the exception that leaves the body. A name without
  a dot after \<open>secure_filename\<close> fails at the index 1 of line 188; an extension that is
  neither \<open>csv\<close> nor \<open>xlsx\<close> leaves \<open>df\<close> at \<open>None\<close>, and line 205 fails on it
  (the message of that AttributeError is written here without its quotation marks).
\<close>

definition try_body :: "env \<Rightarrow> config \<Rightarrow> request \<Rightarrow> string \<Rightarrow> string \<Rightarrow> event list \<times> (exn + response)" where
  "try_body e cfg rq raw_name file_bytes =
     (if length file_bytes > MAX_FILE_SIZE cfg then
        ([ReadFile],
         Inr (Json (''File is too large. Max size is ''
                     @ show_nat (MAX_FILE_SIZE cfg div (1024 * 1024)) @ ''MB.'') 400))
      else
        (let filename = secure_filename e raw_name in
         if length (rsplit_dot filename) < 2 then
           ([ReadFile], Inl (IndexError ''list index out of range''))
         else
           (let file_extension = py_lower (rsplit_dot filename ! 1) in
            if file_extension = ''csv'' then
              (case read_csv e file_bytes of
                 Inl x \<Rightarrow>
                   ([ReadFile, ParseCsv],
                    Inr (Json (''Failed to parse CSV file: '' @ str_exn x) 400))
               | Inr df \<Rightarrow> ([ReadFile, ParseCsv], build_response e rq filename df))
            else if file_extension = ''xlsx'' then
              (case read_excel e file_bytes of
                 Inl x \<Rightarrow>
                   ([ReadFile, ParseExcel],
                    Inr (Json (''Failed to parse Excel file: '' @ str_exn x) 400))
               | Inr df \<Rightarrow> ([ReadFile, ParseExcel], build_response e rq filename df))
            else
              ([ReadFile],
               Inl (AttributeError ''NoneType object has no attribute columns'')))))"

text \<open>The two \<open>except\<close> clauses of lines 262 to 267.\<close>

definition handle_exn :: "exn \<Rightarrow> response" where
  "handle_exn x =
     (case x of
        EmptyDataError m \<Rightarrow> Json (''Failed to parse the file: '' @ m) 400
      | ParserError m \<Rightarrow> Json (''Failed to parse the file: '' @ m) 400
      | _ \<Rightarrow> Json (''An unexpected error occurred: '' @ str_exn x) 500)"

text \<open>\<open>upload_and_analyze\<close>, lines 171 to 269.\<close>

definition upload_and_analyze :: "env \<Rightarrow> config \<Rightarrow> request \<Rightarrow> event list \<times> response" where
  "upload_and_analyze e cfg rq =
     (if is_post rq then
        (case upload rq of
           None \<Rightarrow> ([], Json ''No file part in the request'' 400)
         | Some (raw_name, file_bytes) \<Rightarrow>
             if raw_name = [] then ([], Json ''No selected file'' 400)
             else if \<not> allowed_file cfg raw_name then
               ([], Json ''File type not allowed. Please upload a CSV or Excel file.'' 400)
             else
               (case try_body e cfg rq raw_name file_bytes of
                  (evs, Inl x) \<Rightarrow> (evs, handle_exn x)
                | (evs, Inr r) \<Rightarrow> (evs, r)))
      else ([], Page))"


section \<open>Observations and the specification's wording\<close>

text \<open>The data of the tables of a story, in the order of the story.\<close>

fun table_data :: "flowable \<Rightarrow> cell list list option" where
  "table_data (Table d st) = Some d"
| "table_data f = None"

definition story_tables :: "flowable list \<Rightarrow> cell list list list" where
  "story_tables story = List.map_filter table_data story"

text \<open>The names of the numeric columns, in column order.\<close>

definition numeric_names :: "frame \<Rightarrow> cell list" where
  "numeric_names df = map (\<lambda>j. fst (cols df ! j)) (numeric_positions df)"




text \<open>
  A library to run examples on: file names pass unchanged, the CSV parser knows two
  files and the spreadsheet parser two workbooks (an empty one, and one whose header cells
  are the numbers 2024 and 2025), the count of a column is the number of its present
  values and every other statistic is left missing, and rounding returns its argument
  (the values of the examples have no more than two decimals).
\<close>

definition sample_frame :: frame where
  "sample_frame =
     \<lparr>cols = [(Str ''Name '', Object), (Str ''Unit Price'', Numeric)],
      rows = [[Str ''ann'', Num (5 / 2)], [Str ''bob'', Num 4]]\<rparr>"

definition text_frame :: frame where
  "text_frame = \<lparr>cols = [(Str ''name'', Object)], rows = [[Str ''ann''], [Str ''bob'']]\<rparr>"

definition clash_frame :: frame where
  "clash_frame =
     \<lparr>cols = [(Str ''index'', Numeric), (Str ''level_0'', Numeric)], rows = [[Num 0, Num 7]]\<rparr>"

definition empty_workbook :: frame where
  "empty_workbook = \<lparr>cols = [], rows = []\<rparr>"

definition years_frame :: frame where
  "years_frame = \<lparr>cols = [(Num 2024, Numeric), (Num 2025, Numeric)], rows = [[Num 1, Num 2]]\<rparr>"

definition sample_env :: env where
  "sample_env =
     \<lparr>secure_filename = (\<lambda>n. n),
      read_csv = (\<lambda>b. if b = ''sample'' then Inr sample_frame
                       else if b = ''text'' then Inr text_frame
                       else Inl (ParserError ''No columns to parse from file'')),
      read_excel = (\<lambda>b. if b = ''empty'' then Inr empty_workbook
                         else if b = ''years'' then Inr years_frame
                         else Inl (OtherError ''File is not a zip file'')),
      agg = (\<lambda>l vs. if l = ''count'' then Num (of_nat (length (filter (\<lambda>c. c \<noteq> NaN) vs))) else NaN),
      round_float = Num,
      now = ''2024-01-01 00:00''\<rparr>"

definition post :: "string \<Rightarrow> string \<Rightarrow> (string \<rightharpoonup> string) \<Rightarrow> request" where
  "post name content fs = \<lparr>is_post = True, upload = Some (name, content), form = fs\<rparr>"


section \<open>Column names\<close>
















lemma rows_normalize: "rows (normalize_labels df) = rows df"
  by (simp add: normalize_labels_def)




text \<open>
  Line 205 on the three kinds of header a workbook can have beside one of strings only:
  the empty workbook and the header of numbers raise, and in a mixed header the number
  comes out missing.
\<close>

lemma labels_that_are_not_strings:
  "sanitize_columns empty_workbook =
     Inl (AttributeError ''Can only use .str accessor with string values!'')"
  "sanitize_columns years_frame =
     Inl (AttributeError ''Can only use .str accessor with string values!'')"
  "sanitize_columns \<lparr>cols = [(Str ''Year'', Object), (Num 2025, Numeric)], rows = []\<rparr>
     = Inr \<lparr>cols = [(Str ''year'', Object), (NaN, Numeric)], rows = []\<rparr>"
  by (simp_all add: empty_workbook_def years_frame_def columns_def sanitize_columns_def
      normalize_labels_def sanitize_column_def py_strip_def py_isspace_def code_def py_lower_def
      lower_char_def upper_letters_def lower_letters_def replace_non_word_def is_word_char_def
      is_lower_alnum_def)







section \<open>The chunks of the full-data PDF\<close>

lemma py_range_stop: "stop \<le> i \<Longrightarrow> py_range i stop step = []"
  by (simp add: py_range.simps)

lemma py_range_step: "0 < step \<Longrightarrow> i < stop \<Longrightarrow> py_range i stop step = i # py_range (i + step) stop step"
  by (subst py_range.simps) simp

lemma div_one_more: "0 < (step::nat) \<Longrightarrow> (x + step) div step = Suc (x div step)"
  by simp

lemma length_py_range:
  "0 < step \<Longrightarrow> length (py_range i stop step) = (stop - i + (step - 1)) div step"
proof (induction i stop step rule: py_range.induct)
  case (1 i stop step)
  show ?case
  proof (cases "stop \<le> i")
    case True
    then have "stop - i + (step - 1) < step" using 1(2) by simp
    then show ?thesis using True by (simp add: py_range_stop)
  next
    case False
    then have lt: "i < stop" by simp
    have ih: "length (py_range (i + step) stop step) = (stop - (i + step) + (step - 1)) div step"
      using 1(1)[OF _ 1(2)] False 1(2) by simp
    show ?thesis
    proof (cases "stop - i \<le> step")
      case True
      then have z: "stop - (i + step) = 0" by simp
      have "stop - i + (step - 1) = (stop - i - 1) + step" using lt 1(2) by simp
      moreover have "(stop - i - 1) div step = 0" using True lt 1(2) by simp
      ultimately have "(stop - i + (step - 1)) div step = 1"
        using div_one_more[OF 1(2), of "stop - i - 1"] by simp
      moreover have "(step - 1) div step = 0" using 1(2) by simp
      ultimately show ?thesis using ih z lt 1(2) by (simp add: py_range_step)
    next
      case False
      then have "stop - i + (step - 1) = (stop - (i + step) + (step - 1)) + step" by simp
      then have "(stop - i + (step - 1)) div step = Suc ((stop - (i + step) + (step - 1)) div step)"
        using div_one_more[OF 1(2), of "stop - (i + step) + (step - 1)"] by (simp only:)
      then show ?thesis using ih lt 1(2) by (simp add: py_range_step)
    qed
  qed
qed

lemma concat_chunks:
  "0 < k \<Longrightarrow> concat (map (\<lambda>i. take k (drop i xs)) (py_range i (length xs) k)) = drop i xs"
proof (induction i "length xs" k rule: py_range.induct)
  case (1 i step)
  show ?case
  proof (cases "length xs \<le> i")
    case True
    then show ?thesis by (simp add: py_range_stop)
  next
    case False
    have "take step (drop i xs) @ drop (i + step) xs = drop i xs"
      by (metis add.commute append_take_drop_id drop_drop)
    then show ?thesis using False 1 by (simp add: py_range_step)
  qed
qed

lemma story_tables_append: "story_tables (xs @ ys) = story_tables xs @ story_tables ys"
  by (simp add: story_tables_def map_filter_def)

lemma story_tables_chunks:
  "story_tables (chunk_tables df) =
     map (\<lambda>i. take chunk_size (drop i (rows df))) (py_range 0 (length (rows df)) chunk_size)"
  by (simp add: story_tables_def chunk_tables_def map_filter_def iloc_def values_tolist_def
      len_df_def comp_def)

lemma chunk_size_pos: "0 < chunk_size"
  by (simp add: chunk_size_def)

lemma chunks_count: "length (chunk_tables df) = (len_df df + 4999) div 5000"
  using length_py_range[OF chunk_size_pos, of 0 "len_df df"]
  by (simp add: chunk_tables_def chunk_size_def)

lemma chunks_concat: "concat (story_tables (chunk_tables df)) = rows df"
  using concat_chunks[OF chunk_size_pos, of "rows df" 0] by (simp add: story_tables_chunks)

lemma chunks_bounded: "t \<in> set (story_tables (chunk_tables df)) \<Longrightarrow> length t \<le> 5000"
  by (auto simp: story_tables_chunks chunk_size_def)

lemma chunks_empty: "len_df df = 0 \<Longrightarrow> chunk_tables df = []"
  by (simp add: chunk_tables_def py_range_stop)

lemma chunks_single:
  assumes "0 < len_df df" and "len_df df \<le> 5000"
  shows "story_tables (chunk_tables df) = [rows df]"
proof -
  have "py_range 0 (length (rows df)) chunk_size = [0]"
    using assms by (simp add: py_range_step py_range_stop chunk_size_def len_df_def)
  then show ?thesis using assms by (simp add: story_tables_chunks chunk_size_def len_df_def)
qed

lemma chunks_many:
  assumes "5000 < len_df df"
  shows "1 < length (chunk_tables df)" and "rows df \<notin> set (story_tables (chunk_tables df))"
proof -
  show "1 < length (chunk_tables df)" using assms by (simp add: chunks_count)
  show "rows df \<notin> set (story_tables (chunk_tables df))"
    using chunks_bounded[of "rows df" df] assms by (auto simp: len_df_def)
qed

lemma full_story_tables:
  "story_tables (full_data_story e df fn) = [columns df] # story_tables (chunk_tables df)"
  by (simp add: full_data_story_def story_tables_append)
     (simp add: story_tables_def map_filter_def)

text \<open>
  C1, as the code has it. The tables of the full-data story are the header-only table
  followed by the chunk tables, which hold consecutive slices of 5000 rows: there are
  as many as the row count divided by 5000, rounded up; together they hold the rows in
  order, and none holds more than 5000. So a frame without rows has no chunk table, a
  frame of 1 to 5000 rows has exactly one (which holds all its rows), and a frame of more
  than 5000 rows has more than one, none of which holds the whole data.
\<close>

theorem full_data_pdf_chunks:
  "story_tables (full_data_story e df fn) = [columns df] # story_tables (chunk_tables df)
   \<and> length (chunk_tables df) = (len_df df + 4999) div 5000
   \<and> concat (story_tables (chunk_tables df)) = rows df
   \<and> (\<forall>t \<in> set (story_tables (chunk_tables df)). length t \<le> 5000)
   \<and> (len_df df = 0 \<longrightarrow> chunk_tables df = [])
   \<and> (0 < len_df df \<and> len_df df \<le> 5000 \<longrightarrow> story_tables (chunk_tables df) = [rows df])
   \<and> (5000 < len_df df \<longrightarrow>
        1 < length (chunk_tables df) \<and> rows df \<notin> set (story_tables (chunk_tables df)))"
  using full_story_tables chunks_count chunks_concat chunks_bounded chunks_empty chunks_single
    chunks_many by blast

theorem full_data_pdf_chunks_witness:
  "1 < length (chunk_tables \<lparr>cols = [(Str ''a'', Numeric)], rows = replicate 5001 [Num 1]\<rparr>)
   \<and> rows \<lparr>cols = [(Str ''a'', Numeric)], rows = replicate 5001 [Num 1]\<rparr>
        \<notin> set (story_tables (chunk_tables \<lparr>cols = [(Str ''a'', Numeric)], rows = replicate 5001 [Num 1]\<rparr>))
   \<and> story_tables (chunk_tables sample_frame) = [rows sample_frame]
   \<and> list_all (\<lambda>t. length t \<le> 5000) (story_tables (chunk_tables sample_frame))"
  using full_data_pdf_chunks[of sample_env "\<lparr>cols = [(Str ''a'', Numeric)], rows = replicate 5001 [Num 1]\<rparr>" "''f.csv''"]
    full_data_pdf_chunks[of sample_env sample_frame "''f.csv''"]
  by (simp add: len_df_def sample_frame_def list_all_iff)

text \<open>
  C1 as stated fails on a frame without rows, which has the header table and no chunk
  table, and on a frame of one row, whose only chunk table holds all of its data.
\<close>

theorem empty_frame_has_no_chunk:
  "story_tables (full_data_story sample_env \<lparr>cols = [(Str ''a'', Numeric)], rows = []\<rparr> ''f.csv'') = [[[Str ''a'']]]
   \<and> story_tables (chunk_tables \<lparr>cols = [(Str ''a'', Numeric)], rows = [[Num 1]]\<rparr>)
       = [rows \<lparr>cols = [(Str ''a'', Numeric)], rows = [[Num 1]]\<rparr>]"
  by (simp add: full_story_tables story_tables_chunks py_range_stop py_range_step chunk_size_def columns_def)


section \<open>The request handler: what a response can be\<close>













lemma handler_not_allowed:
  assumes "is_post rq" and "upload rq = Some (name, content)" and "\<not> allowed_file cfg name"
  shows "upload_and_analyze e cfg rq =
           ([], Json (if name = [] then ''No selected file''
                      else ''File type not allowed. Please upload a CSV or Excel file.'') 400)"
  using assms by (simp add: upload_and_analyze_def)

lemma handler_too_large:
  assumes "is_post rq" and "upload rq = Some (name, content)" and "allowed_file cfg name"
    and "MAX_FILE_SIZE cfg < length content"
  shows "upload_and_analyze e cfg rq =
           ([ReadFile], Json (''File is too large. Max size is ''
                               @ show_nat (MAX_FILE_SIZE cfg div (1024 * 1024)) @ ''MB.'') 400)"
proof -
  have "name \<noteq> []" using assms(3) by (auto simp: allowed_file_def)
  then show ?thesis using assms by (simp add: upload_and_analyze_def try_body_def)
qed








subsection \<open>The handler on the sample library\<close>

lemma py_lower_literals:
  "py_lower ''csv'' = ''csv''" "py_lower ''xml'' = ''xml''" "py_lower ''pdf'' = ''pdf''"
  "py_lower ''excel'' = ''excel''" "py_lower ''bogus'' = ''bogus''" "py_lower ''all'' = ''all''"
  "py_lower ''full_data'' = ''full_data''" "py_lower ''summary'' = ''summary''"
  "py_lower ''txt'' = ''txt''" "py_lower ''PDF'' = ''pdf''" "py_lower ''xlsx'' = ''xlsx''"
  by (simp_all add: py_lower_def lower_char_def upper_letters_def lower_letters_def)

lemma rsplit_data_csv: "rsplit_dot ''data.csv'' = [''data'', ''csv'']"
  by (simp add: rsplit_dot_def)


lemma allowed_data_csv: "allowed_file default_config ''data.csv''"
  by (simp add: allowed_file_def rsplit_data_csv py_lower_literals default_config_def)


lemma not_allowed_notes_txt: "\<not> allowed_file default_config ''notes.txt''"
  by (simp add: allowed_file_def rsplit_dot_def py_lower_literals default_config_def)


lemma post_simps:
  "is_post (post n c fs)" "upload (post n c fs) = Some (n, c)" "form (post n c fs) = fs"
  by (simp_all add: post_def)

lemma max_default: "MAX_FILE_SIZE default_config = 157286400"
  by (simp add: default_config_def)







lemma show_nat_150: "show_nat 150 = ''150''"
  by (simp add: show_nat.simps[of 150] show_nat.simps[of 15] show_nat.simps[of "Suc 0"] digit_char_def)



section \<open>Rejected uploads\<close>

text \<open>
  C5. A POST whose file name has no allowed extension is answered with a 400 error before
  the upload is read: the event log is empty, so no parser has seen the content. A POST
  whose file name is allowed and whose content is longer than the configured ceiling is
  answered with a 400 error after the read and before any parser is called. In both cases
  the response is a JSON error, so no report is sent. The ceiling of the default
  configuration is 150 MiB.
\<close>

theorem rejected_uploads:
  assumes "is_post rq" and "upload rq = Some (name, content)"
  shows "(\<not> allowed_file cfg name \<longrightarrow>
            upload_and_analyze e cfg rq =
              ([], Json (if name = [] then ''No selected file''
                         else ''File type not allowed. Please upload a CSV or Excel file.'') 400))
       \<and> (allowed_file cfg name \<and> MAX_FILE_SIZE cfg < length content \<longrightarrow>
            upload_and_analyze e cfg rq =
              ([ReadFile], Json (''File is too large. Max size is ''
                                  @ show_nat (MAX_FILE_SIZE cfg div (1024 * 1024)) @ ''MB.'') 400))
       \<and> MAX_FILE_SIZE default_config = 150 * 2 ^ 20"
  using handler_not_allowed[OF assms] handler_too_large[OF assms]
  by (simp add: default_config_def)

theorem rejected_uploads_witness:
  "upload_and_analyze sample_env default_config (post ''notes.txt'' ''sample'' Map.empty) =
     ([], Json ''File type not allowed. Please upload a CSV or Excel file.'' 400)
   \<and> upload_and_analyze sample_env default_config
        (post ''data.csv'' (replicate 157286401 (CHR ''x'')) Map.empty) =
     ([ReadFile], Json ''File is too large. Max size is 150MB.'' 400)"
proof -
  let ?rq1 = "post ''notes.txt'' ''sample'' Map.empty"
  let ?rq2 = "post ''data.csv'' (replicate 157286401 (CHR ''x'')) Map.empty"
  have p1: "is_post ?rq1" "upload ?rq1 = Some (''notes.txt'', ''sample'')"
    by (simp_all add: post_simps)
  have p2: "is_post ?rq2" "upload ?rq2 = Some (''data.csv'', replicate 157286401 (CHR ''x''))"
    by (simp_all add: post_simps)
  show ?thesis
    using rejected_uploads[OF p1, where e = sample_env and cfg = default_config]
      rejected_uploads[OF p2, where e = sample_env and cfg = default_config]
    by (simp add: not_allowed_notes_txt allowed_data_csv max_default show_nat_150)
qed

section \<open>Format selectors\<close>




section \<open>Download name and MIME type\<close>



section \<open>Page sizes\<close>




section \<open>The summary frame: shape\<close>

lemma map_zip_same: "map h (zip (map f xs) (map g xs)) = map (\<lambda>x. h (f x, g x)) xs"
  by (induction xs) auto

lemma map_zip_labels: "map h (zip ls (map g ls)) = map (\<lambda>l. h (l, g l)) ls"
  using map_zip_same[of h "\<lambda>x. x" ls g] by simp

lemma round_cell_name: "round_cell e ((n, t), c) = round_cell e ((n', t), c)"
  by (cases t; cases c) simp_all

lemma numeric_position_dtype:
  "j \<in> set (numeric_positions df) \<Longrightarrow> cols df ! j = (fst (cols df ! j), Numeric)"
  by (auto simp: numeric_positions_def prod_eq_iff)

lemma numeric_positions_cols: "numeric_positions df \<noteq> [] \<Longrightarrow> cols df \<noteq> []"
  by (auto simp: numeric_positions_def)

lemma describe_numeric:
  assumes "numeric_positions df \<noteq> []"
  shows "describe e df =
           Inr (numeric_labels,
                \<lparr>cols = map (\<lambda>j. cols df ! j) (numeric_positions df),
                 rows = map (\<lambda>l. map (\<lambda>j. agg e l (column_values df j)) (numeric_positions df))
                          numeric_labels\<rparr>)"
  using assms numeric_positions_cols[OF assms] by (simp add: describe_def)

lemma reset_index_ok:
  assumes "\<not> (Str ''index'' \<in> set (columns d) \<and> Str ''level_0'' \<in> set (columns d))"
  shows "reset_index (labels, d) =
           Inr \<lparr>cols = (Str (if Str ''index'' \<in> set (columns d) then ''level_0'' else ''index''), Object)
                         # cols d,
                rows = map (\<lambda>(l, r). Str l # r) (zip labels (rows d))\<rparr>"
  using assms by (auto simp: reset_index_def Let_def)

lemma reset_index_clash:
  assumes "Str ''index'' \<in> set (columns d)" and "Str ''level_0'' \<in> set (columns d)"
  shows "reset_index (labels, d) = Inl (ValueError ''cannot insert level_0, already exists'')"
  using assms by (simp add: reset_index_def Let_def)

lemma summary_numeric:
  assumes np: "numeric_positions df \<noteq> []"
    and ok: "\<not> (Str ''index'' \<in> set (numeric_names df) \<and> Str ''level_0'' \<in> set (numeric_names df))"
  shows "generate_summary_df e df =
           Inr \<lparr>cols = (Str (if Str ''index'' \<in> set (numeric_names df) then ''level_0''
                              else ''Statistic''), Object)
                        # map (\<lambda>j. (if fst (cols df ! j) = Str ''index'' then Str ''Statistic''
                                     else fst (cols df ! j), Numeric)) (numeric_positions df),
                rows = map (\<lambda>l. Str l # map (\<lambda>j. round_cell e (cols df ! j, agg e l (column_values df j)))
                                           (numeric_positions df)) numeric_labels\<rparr>"
proof -
  let ?np = "numeric_positions df"
  let ?d = "\<lparr>cols = map (\<lambda>j. cols df ! j) ?np,
             rows = map (\<lambda>l. map (\<lambda>j. agg e l (column_values df j)) ?np) numeric_labels\<rparr>"
  have cd: "columns ?d = numeric_names df"
    by (simp add: columns_def numeric_names_def comp_def)
  let ?nm = "if Str ''index'' \<in> set (numeric_names df) then ''level_0'' else ''index''"
  let ?s = "\<lparr>cols = (Str ?nm, Object) # cols ?d,
             rows = map (\<lambda>(l, r). Str l # r) (zip numeric_labels (rows ?d))\<rparr>"
  have ri: "reset_index (numeric_labels, ?d) = Inr ?s"
    using reset_index_ok[of ?d numeric_labels] ok unfolding cd by simp
  have rows_s: "rows ?s = map (\<lambda>l. Str l # map (\<lambda>j. agg e l (column_values df j)) ?np) numeric_labels"
    by (simp add: map_zip_labels)
  have ren: "cols (rename_index ?s) =
      (Str (if Str ''index'' \<in> set (numeric_names df) then ''level_0'' else ''Statistic''), Object)
        # map (\<lambda>j. (if fst (cols df ! j) = Str ''index'' then Str ''Statistic'' else fst (cols df ! j),
                     snd (cols df ! j))) ?np"
    by (simp add: rename_index_def case_prod_unfold comp_def)
  have dt: "map (\<lambda>j. (if fst (cols df ! j) = Str ''index'' then Str ''Statistic'' else fst (cols df ! j),
                     snd (cols df ! j))) ?np
          = map (\<lambda>j. (if fst (cols df ! j) = Str ''index'' then Str ''Statistic'' else fst (cols df ! j),
                     Numeric)) ?np"
    by (rule map_cong) (auto simp: numeric_positions_def)
  have rr: "rows (rename_index ?s) = rows ?s"
    by (simp add: rename_index_def)
  have cell: "round_cell e ((if fst (cols df ! j) = Str ''index'' then Str ''Statistic''
                             else fst (cols df ! j), Numeric), c)
        = round_cell e (cols df ! j, c)" if "j \<in> set ?np" for j c
    using numeric_position_dtype[OF that]
      round_cell_name[of e "if fst (cols df ! j) = Str ''index'' then Str ''Statistic'' else fst (cols df ! j)"
        Numeric c "fst (cols df ! j)"]
    by simp
  have row: "map (round_cell e) (zip (cols (rename_index ?s)) (Str l # map (\<lambda>j. agg e l (column_values df j)) ?np))
        = Str l # map (\<lambda>j. round_cell e (cols df ! j, agg e l (column_values df j))) ?np" for l
    unfolding ren dt by (simp add: map_zip_same cell cong: map_cong)
  define X where "X = round_frame e (rename_index ?s)"
  have cx: "cols X = cols (rename_index ?s)"
    by (simp add: X_def round_frame_def)
  have rx: "rows X = map (\<lambda>r. map (round_cell e) (zip (cols (rename_index ?s)) r)) (rows (rename_index ?s))"
    by (simp add: X_def round_frame_def)
  have rx': "rows X = map (\<lambda>l. Str l # map (\<lambda>j. round_cell e (cols df ! j, agg e l (column_values df j))) ?np)
                 numeric_labels"
    unfolding rx rr rows_s map_map comp_def row ..
  have "X = \<lparr>cols = cols X, rows = rows X\<rparr>" by simp
  then have "round_frame e (rename_index ?s) =
      \<lparr>cols = (Str (if Str ''index'' \<in> set (numeric_names df) then ''level_0'' else ''Statistic''), Object)
                 # map (\<lambda>j. (if fst (cols df ! j) = Str ''index'' then Str ''Statistic''
                              else fst (cols df ! j), Numeric)) ?np,
        rows = map (\<lambda>l. Str l # map (\<lambda>j. round_cell e (cols df ! j, agg e l (column_values df j))) ?np)
                 numeric_labels\<rparr>"
    unfolding rx' cx ren dt by (simp only: X_def)
  then show ?thesis
    by (simp only: generate_summary_df_def describe_numeric[OF np] ri sum.case prod.case)
qed

lemma summary_clash:
  assumes "numeric_positions df \<noteq> []"
    and "Str ''index'' \<in> set (numeric_names df)" and "Str ''level_0'' \<in> set (numeric_names df)"
  shows "generate_summary_df e df = Inl (ValueError ''cannot insert level_0, already exists'')"
proof -
  let ?d = "\<lparr>cols = map (\<lambda>j. cols df ! j) (numeric_positions df),
             rows = map (\<lambda>l. map (\<lambda>j. agg e l (column_values df j)) (numeric_positions df)) numeric_labels\<rparr>"
  have cd: "columns ?d = numeric_names df"
    by (simp add: columns_def numeric_names_def comp_def)
  have "reset_index (numeric_labels, ?d) = Inl (ValueError ''cannot insert level_0, already exists'')"
    by (rule reset_index_clash) (simp_all add: cd assms)
  then show ?thesis
    by (simp add: generate_summary_df_def describe_numeric[OF assms(1)])
qed

text \<open>
  The summary of a frame with a numeric column, when the numeric columns are not named both
  \<open>index\<close> and \<open>level_0\<close>: one row for each of the eight statistics in their fixed
  order, the label first and then one cell for each numeric column, which holds the
  statistic of that column as \<open>round(2)\<close> leaves it.
\<close>

lemma numeric_summary_shape:
  assumes "numeric_positions df \<noteq> []"
    and "\<not> (Str ''index'' \<in> set (numeric_names df) \<and> Str ''level_0'' \<in> set (numeric_names df))"
  shows "\<exists>s. generate_summary_df e df = Inr s
     \<and> map hd (rows s) = map Str [''count'', ''mean'', ''std'', ''min'', ''25%'', ''50%'', ''75%'', ''max'']
     \<and> map snd (cols s) = Object # map (\<lambda>j. Numeric) (numeric_positions df)
     \<and> map fst (tl (cols s)) =
         map (\<lambda>n. if n = Str ''index'' then Str ''Statistic'' else n) (numeric_names df)
     \<and> (\<forall>r \<in> set (rows s). length r = length (cols s))
     \<and> rows s = map (\<lambda>l. Str l # map (\<lambda>j. round_cell e (cols df ! j, agg e l (column_values df j)))
                                    (numeric_positions df)) numeric_labels"
proof -
  define s where "s = \<lparr>cols = (Str (if Str ''index'' \<in> set (numeric_names df) then ''level_0''
                              else ''Statistic''), Object)
                        # map (\<lambda>j. (if fst (cols df ! j) = Str ''index'' then Str ''Statistic''
                                     else fst (cols df ! j), Numeric)) (numeric_positions df),
                rows = map (\<lambda>l. Str l # map (\<lambda>j. round_cell e (cols df ! j, agg e l (column_values df j)))
                                           (numeric_positions df)) numeric_labels\<rparr>"
  have 1: "generate_summary_df e df = Inr s"
    unfolding s_def by (rule summary_numeric[OF assms])
  have 2: "map hd (rows s) = map Str [''count'', ''mean'', ''std'', ''min'', ''25%'', ''50%'', ''75%'', ''max'']"
    by (simp add: s_def numeric_labels_def)
  have 3: "map snd (cols s) = Object # map (\<lambda>j. Numeric) (numeric_positions df)"
    by (simp add: s_def comp_def)
  have 4: "map fst (tl (cols s)) =
      map (\<lambda>n. if n = Str ''index'' then Str ''Statistic'' else n) (numeric_names df)"
    by (simp add: s_def comp_def numeric_names_def)
  have 5: "\<forall>r \<in> set (rows s). length r = length (cols s)"
    by (auto simp: s_def)
  have 6: "rows s = map (\<lambda>l. Str l # map (\<lambda>j. round_cell e (cols df ! j, agg e l (column_values df j)))
                                    (numeric_positions df)) numeric_labels"
    by (simp add: s_def)
  show ?thesis by (intro exI[of _ s] conjI 1 2 3 4 5 6)
qed

lemma sample_numeric:
  "numeric_positions sample_frame = [1]" "numeric_names sample_frame = [Str ''Unit Price'']"
  by (simp_all add: numeric_names_def numeric_positions_def sample_frame_def upt_rec)

text \<open>
  C4, at the input where the code departs from it. A frame whose two numeric columns are
  named \<open>index\<close> and \<open>level_0\<close> has numeric columns and no summary: \<open>reset_index\<close>
  finds both names taken, and \<open>generate_summary_df\<close> raises the ValueError instead of
  returning the eight statistic rows.
\<close>

theorem index_and_level_0_raise:
  "numeric_positions clash_frame = [0, 1]
   \<and> generate_summary_df sample_env clash_frame = Inl (ValueError ''cannot insert level_0, already exists'')"
proof -
  have np: "numeric_positions clash_frame = [0, 1]"
    by (simp add: numeric_positions_def clash_frame_def upt_rec)
  have nn: "numeric_names clash_frame = [Str ''index'', Str ''level_0'']"
    by (simp add: numeric_names_def np) (simp add: clash_frame_def)
  have "generate_summary_df sample_env clash_frame = Inl (ValueError ''cannot insert level_0, already exists'')"
    by (rule summary_clash) (simp_all add: np nn)
  then show ?thesis using np by simp
qed

section \<open>The summary frame without numeric columns\<close>

lemma summary_never_empty: "generate_summary_df e df = Inr s \<Longrightarrow> \<not> empty_df s"
  by (auto simp: generate_summary_df_def describe_def reset_index_def Let_def rename_index_def
      round_frame_def empty_df_def numeric_labels_def object_labels_def
      split: if_splits sum.splits)

lemma summary_pdf_always_table:
  assumes "generate_reportlab_pdf e df fn = Inr r"
  shows "\<exists>s story. generate_summary_df e df = Inr s
           \<and> r = PdfDoc A4 (story @ [Paragraph ''<b>Numeric Column Statistics:</b>'' ''h2'',
                                     Table (columns s # rows s) [''BACKGROUND'', ''GRID'']])"
proof (cases "generate_summary_df e df")
  case (Inl x)
  then show ?thesis using assms by (simp add: generate_reportlab_pdf_def)
next
  case (Inr s)
  then have "\<not> empty_df s" by (rule summary_never_empty)
  then show ?thesis using assms Inr
    by (auto simp: generate_reportlab_pdf_def Let_def values_tolist_def)
qed

lemma show_nat_2: "show_nat (Suc (Suc 0)) = ''2''"
  by (simp add: show_nat.simps[of "Suc (Suc 0)"] digit_char_def)

lemma text_frame_summary:
  "generate_summary_df e text_frame =
     Inr \<lparr>cols = [(Str ''Statistic'', Object), (Str ''name'', Object)],
          rows = [[Str ''count'', agg e ''count'' [Str ''ann'', Str ''bob'']],
                  [Str ''unique'', agg e ''unique'' [Str ''ann'', Str ''bob'']],
                  [Str ''top'', agg e ''top'' [Str ''ann'', Str ''bob'']],
                  [Str ''freq'', agg e ''freq'' [Str ''ann'', Str ''bob'']]]\<rparr>"
  by (simp add: generate_summary_df_def describe_def numeric_positions_def text_frame_def
      reset_index_def columns_def rename_index_def round_frame_def object_labels_def
      column_values_def)

text \<open>
  C3, at the input where the code departs from it. A frame whose only column is text has no
  numeric column, and its summary is not empty: it has the rows count, unique, top and
  freq over the text column. The summary PDF then holds the heading
  \<open>Numeric Column Statistics\<close> and that table, not the placeholder
  \<open>No numeric columns found\<close>.
\<close>

theorem text_only_frame_gets_a_table:
  "numeric_positions text_frame = []
   \<and> generate_summary_df e text_frame =
     Inr \<lparr>cols = [(Str ''Statistic'', Object), (Str ''name'', Object)],
          rows = [[Str ''count'', agg e ''count'' [Str ''ann'', Str ''bob'']],
                  [Str ''unique'', agg e ''unique'' [Str ''ann'', Str ''bob'']],
                  [Str ''top'', agg e ''top'' [Str ''ann'', Str ''bob'']],
                  [Str ''freq'', agg e ''freq'' [Str ''ann'', Str ''bob'']]]\<rparr>
   \<and> generate_reportlab_pdf e text_frame fn =
     Inr (PdfDoc A4
       [Paragraph (''<b>Data Analysis Report: '' @ fn @ ''</b>'') ''Title'',
        Paragraph (''<i>Generated on: '' @ now e @ ''</i>'') ''Normal'',
        Spacer 1 12,
        Paragraph ''<b>Total Records:</b> 2'' ''Normal'',
        Spacer 1 24,
        Paragraph ''<b>Numeric Column Statistics:</b>'' ''h2'',
        Table [[Str ''Statistic'', Str ''name''],
               [Str ''count'', agg e ''count'' [Str ''ann'', Str ''bob'']],
               [Str ''unique'', agg e ''unique'' [Str ''ann'', Str ''bob'']],
               [Str ''top'', agg e ''top'' [Str ''ann'', Str ''bob'']],
               [Str ''freq'', agg e ''freq'' [Str ''ann'', Str ''bob'']]]
          [''BACKGROUND'', ''GRID'']])"
proof -
  have "numeric_positions text_frame = []"
    by (simp add: numeric_positions_def text_frame_def)
  moreover have "len_df text_frame = Suc (Suc 0)"
    by (simp add: len_df_def text_frame_def)
  ultimately show ?thesis
    by (simp add: generate_reportlab_pdf_def text_frame_summary empty_df_def columns_def
        values_tolist_def show_nat_2)
qed

end
